theory Spec2Isabelle
  imports Complex_Main "HOL-Library.Multiset"
begin

section \<open>Box3DMode.convert of mmdet3d/structures/bbox_3d/box_3d_mode.py\<close>

text \<open>
  The conversion of oriented 3D boxes between the LiDAR, camera and depth coordinate
  systems.  Floating point numbers are idealised as real numbers: every statement below
  is about exact arithmetic, and rounding is outside the model.
\<close>

subsection \<open>Errors\<close>

text \<open>
  \<open>AssertionError\<close> is the failed \<^verbatim>\<open>assert len(box) >= 7\<close> (the spec's MalformedBox),
  \<open>NotImplementedError\<close> the \<^verbatim>\<open>raise\<close> of the last \<^verbatim>\<open>else\<close> of the dispatch (the spec's
  UnsupportedConversion).  \<open>RuntimeError\<close> is the shape mismatch of a matrix product
  and \<open>IndexError\<close> the column index out of range, both raised by torch.
\<close>

datatype error = AssertionError | NotImplementedError | RuntimeError | IndexError

subsection \<open>Two-dimensional tensors\<close>

text \<open>
  An \<open>N \<times> k\<close> tensor is its list of \<open>N\<close> rows together with the width \<open>k\<close>, which a
  tensor of no rows still has (the shape checks of torch read it).
\<close>

record tensor =
  ncols :: nat
  rows :: "real list list"

definition wf_tensor :: "tensor \<Rightarrow> bool" where
  "wf_tensor t = list_all (\<lambda>r. length r = ncols t) (rows t)"

text \<open>\<^verbatim>\<open>arr.new_tensor(nested_list)\<close>\<close>

definition new_tensor :: "real list list \<Rightarrow> tensor" where
  "new_tensor xss = \<lparr>ncols = (case xss of [] \<Rightarrow> 0 | xs # _ \<Rightarrow> length xs), rows = xss\<rparr>"

text \<open>\<^verbatim>\<open>t[..., a:b]\<close> and \<^verbatim>\<open>t[..., a:]\<close>: slices never fail, they clip to the width.\<close>

definition slice_cols :: "nat \<Rightarrow> nat \<Rightarrow> tensor \<Rightarrow> tensor" where
  "slice_cols a b t =
     \<lparr>ncols = min b (ncols t) - a, rows = map (\<lambda>r. take (b - a) (drop a r)) (rows t)\<rparr>"

definition slice_from :: "nat \<Rightarrow> tensor \<Rightarrow> tensor" where
  "slice_from a t = \<lparr>ncols = ncols t - a, rows = map (drop a) (rows t)\<rparr>"

text \<open>\<^verbatim>\<open>m[:3, :3]\<close>\<close>

definition slice_33 :: "tensor \<Rightarrow> tensor" where
  "slice_33 m = \<lparr>ncols = min 3 (ncols m), rows = map (take 3) (take 3 (rows m))\<rparr>"

text \<open>
  \<^verbatim>\<open>torch.cat([t, u, ...], dim=-1)\<close> of tensors with the same number of rows (all the
  tensors that convert concatenates are column blocks computed from the same buffer).
\<close>

definition hcat :: "tensor \<Rightarrow> tensor \<Rightarrow> tensor" where
  "hcat t u = \<lparr>ncols = ncols t + ncols u, rows = map2 (@) (rows t) (rows u)\<rparr>"

primrec cat_cols :: "tensor \<Rightarrow> tensor list \<Rightarrow> tensor" where
  "cat_cols t [] = t"
| "cat_cols t (u # us) = cat_cols (hcat t u) us"

text \<open>Elementwise operations.\<close>

definition tmap :: "(real \<Rightarrow> real) \<Rightarrow> tensor \<Rightarrow> tensor" where
  "tmap f t = \<lparr>ncols = ncols t, rows = map (map f) (rows t)\<rparr>"

definition tmap2 :: "(real \<Rightarrow> real \<Rightarrow> real) \<Rightarrow> tensor \<Rightarrow> tensor \<Rightarrow> tensor" where
  "tmap2 f t u = \<lparr>ncols = ncols t, rows = map2 (map2 f) (rows t) (rows u)\<rparr>"

definition zeros_like :: "tensor \<Rightarrow> tensor" where
  "zeros_like t = tmap (\<lambda>_. 0) t"

text \<open>\<^verbatim>\<open>arr.new_ones(n, k)\<close>\<close>

definition new_ones :: "nat \<Rightarrow> nat \<Rightarrow> tensor" where
  "new_ones n k = \<lparr>ncols = k, rows = replicate n (replicate k 1)\<rparr>"

text \<open>
  \<^verbatim>\<open>t @ m.t()\<close>: the product of an \<open>N \<times> c\<close> tensor with the transpose of an \<open>r \<times> c\<close>
  matrix is \<open>N \<times> r\<close>; entry \<open>(i, j)\<close> is the dot product of row \<open>i\<close> of \<open>t\<close> with row \<open>j\<close>
  of \<open>m\<close>.  torch raises a RuntimeError when the widths differ.
\<close>

definition dot :: "real list \<Rightarrow> real list \<Rightarrow> real" where
  "dot xs ys = sum_list (map2 (*) xs ys)"

definition matmul_t :: "tensor \<Rightarrow> tensor \<Rightarrow> error + tensor" where
  "matmul_t t m =
     (if ncols t \<noteq> ncols m then Inl RuntimeError
      else Inr \<lparr>ncols = length (rows m), rows = map (\<lambda>r. map (dot r) (rows m)) (rows t)\<rparr>)"

text \<open>\<^verbatim>\<open>t[:, [i]]\<close>: one column, kept as an \<open>N \<times> 1\<close> tensor; IndexError out of range.\<close>

definition index_col :: "tensor \<Rightarrow> nat \<Rightarrow> error + tensor" where
  "index_col t i =
     (if i < ncols t then Inr \<lparr>ncols = 1, rows = map (\<lambda>r. [r ! i]) (rows t)\<rparr>
      else Inl IndexError)"

subsection \<open>Angles\<close>

text \<open>
  Modelled from the spec: \<^verbatim>\<open>limit_period\<close> of \<^verbatim>\<open>structures/bbox_3d/utils.py\<close> is not part
  of the sources at hand.  The spec describes it as the function that "wraps an angle into
  a canonical half-open interval of a given period", and \<^verbatim>\<open>limit_period(a, period=2\<pi>)\<close> as
  the map of \<open>a\<close> "into \<open>[-\<pi>, \<pi>)\<close> by subtracting the nearest multiple of the period".
\<close>

definition limit_period :: "real \<Rightarrow> real \<Rightarrow> real" where
  "limit_period val period = val - of_int \<lfloor>val / period + 1 / 2\<rfloor> * period"

text \<open>
  \<^verbatim>\<open>torch.atan2(y, x)\<close> on real numbers: the angle in \<open>(-\<pi>, \<pi>]\<close> of the point \<open>(x, y)\<close>,
  and 0 at the origin.
\<close>

definition atan2 :: "real \<Rightarrow> real \<Rightarrow> real" where
  "atan2 y x =
     (if 0 < x then arctan (y / x)
      else if x < 0 then (if 0 \<le> y then arctan (y / x) + pi else arctan (y / x) - pi)
      else if 0 < y then pi / 2
      else if y < 0 then - (pi / 2)
      else 0)"

subsection \<open>Coordinate systems\<close>

text \<open>
  \<^verbatim>\<open>Box3DMode\<close> is an \<^verbatim>\<open>IntEnum\<close>: its members are the integers 0, 1 and 2, and
  \<^verbatim>\<open>src == Box3DMode.LIDAR\<close> compares integers.  Python does not restrict the arguments to
  the three members, which is why the dispatch has a last \<^verbatim>\<open>else\<close>.
\<close>

definition LIDAR :: int where "LIDAR = 0"
definition CAM :: int where "CAM = 1"
definition DEPTH :: int where "DEPTH = 2"

definition supported_pairs :: "(int \<times> int) list" where
  "supported_pairs =
     [(LIDAR, CAM), (CAM, LIDAR), (DEPTH, CAM), (CAM, DEPTH), (LIDAR, DEPTH), (DEPTH, LIDAR)]"

subsection \<open>The transform of the buffer\<close>

text \<open>\<^verbatim>\<open>if rt_mat is None: rt_mat = arr.new_tensor(...)\<close>\<close>

definition default_to :: "tensor option \<Rightarrow> real list list \<Rightarrow> tensor" where
  "default_to rt_mat xss = (case rt_mat of None \<Rightarrow> new_tensor xss | Some m \<Rightarrow> m)"

text \<open>
  The two direction vectors of the \<^verbatim>\<open>correct_yaw\<close> path and the closed-form fixups of the
  other path.
\<close>

definition yaw_vector_xy :: "tensor \<Rightarrow> tensor" where
  "yaw_vector_xy yaw = cat_cols (tmap cos yaw) [tmap sin yaw, zeros_like yaw]"

definition yaw_vector_xz :: "tensor \<Rightarrow> tensor" where
  "yaw_vector_xz yaw =
     cat_cols (tmap cos (tmap uminus yaw)) [zeros_like yaw, tmap sin (tmap uminus yaw)]"

definition limit_period_t :: "tensor \<Rightarrow> tensor" where
  "limit_period_t yaw = tmap (\<lambda>v. limit_period v (pi * 2)) yaw"

text \<open>
  The \<^verbatim>\<open>if\<close>/\<^verbatim>\<open>elif\<close> chain over \<open>(src, dst)\<close>.  Each branch yields the matrix (the default
  one when \<open>rt_mat\<close> is None), the size columns in their new order, the direction vector
  and the yaw column.  The source binds \<open>yaw_vector\<close> only under
  \<^verbatim>\<open>with_yaw and correct_yaw\<close> and reads it only there; \<open>yaw\<close> is bound and read only under
  \<^verbatim>\<open>with_yaw\<close>.
\<close>

definition dispatch ::
  "tensor \<Rightarrow> int \<Rightarrow> int \<Rightarrow> tensor option \<Rightarrow> bool \<Rightarrow> bool
     \<Rightarrow> error + (tensor \<times> tensor \<times> tensor \<times> tensor)" where
  "dispatch arr src dst rt_mat with_yaw correct_yaw =
     (let x_size = slice_cols 3 4 arr; y_size = slice_cols 4 5 arr;
          z_size = slice_cols 5 6 arr; yaw = slice_cols 6 7 arr;
          fixup = (\<lambda>f. if with_yaw \<and> \<not> correct_yaw then f yaw else yaw)
      in
      if src = LIDAR \<and> dst = CAM then
        Inr (default_to rt_mat [[0, -1, 0], [0, 0, -1], [1, 0, 0]],
             cat_cols x_size [z_size, y_size],
             yaw_vector_xy yaw,
             fixup (\<lambda>yaw. limit_period_t (tmap (\<lambda>v. - v - pi / 2) yaw)))
      else if src = CAM \<and> dst = LIDAR then
        Inr (default_to rt_mat [[0, 0, 1], [-1, 0, 0], [0, -1, 0]],
             cat_cols x_size [z_size, y_size],
             yaw_vector_xz yaw,
             fixup (\<lambda>yaw. limit_period_t (tmap (\<lambda>v. - v - pi / 2) yaw)))
      else if src = DEPTH \<and> dst = CAM then
        Inr (default_to rt_mat [[1, 0, 0], [0, 0, -1], [0, 1, 0]],
             cat_cols x_size [z_size, y_size],
             yaw_vector_xy yaw,
             fixup (\<lambda>yaw. tmap uminus yaw))
      else if src = CAM \<and> dst = DEPTH then
        Inr (default_to rt_mat [[1, 0, 0], [0, 0, 1], [0, -1, 0]],
             cat_cols x_size [z_size, y_size],
             yaw_vector_xz yaw,
             fixup (\<lambda>yaw. tmap uminus yaw))
      else if src = LIDAR \<and> dst = DEPTH then
        Inr (default_to rt_mat [[0, -1, 0], [1, 0, 0], [0, 0, 1]],
             cat_cols x_size [y_size, z_size],
             yaw_vector_xy yaw,
             fixup (\<lambda>yaw. limit_period_t (tmap (\<lambda>v. v + pi / 2) yaw)))
      else if src = DEPTH \<and> dst = LIDAR then
        Inr (default_to rt_mat [[0, 1, 0], [-1, 0, 0], [0, 0, 1]],
             cat_cols x_size [y_size, z_size],
             yaw_vector_xy yaw,
             fixup (\<lambda>yaw. limit_period_t (tmap (\<lambda>v. v - pi / 2) yaw)))
      else Inl NotImplementedError)"

text \<open>
  \<^verbatim>\<open>xyz = extended_xyz @ rt_mat.t()\<close> when the matrix has four columns, and
  \<^verbatim>\<open>arr[..., :3] @ rt_mat.t()\<close> otherwise.  (A matrix given as a numpy array is made a
  tensor first, \<^verbatim>\<open>arr.new_tensor(rt_mat)\<close>, which keeps its entries.)
\<close>

definition transform_xyz :: "tensor \<Rightarrow> tensor \<Rightarrow> error + tensor" where
  "transform_xyz arr rt_mat =
     (if ncols rt_mat = 4 then
        matmul_t (cat_cols (slice_cols 0 3 arr) [new_ones (length (rows arr)) 1]) rt_mat
      else matmul_t (slice_cols 0 3 arr) rt_mat)"

text \<open>
  The \<^verbatim>\<open>with_yaw and correct_yaw\<close> block: rotate the direction vector by \<^verbatim>\<open>rt_mat[:3, :3]\<close>,
  read the angle off with \<^verbatim>\<open>atan2\<close> in the convention of \<open>dst\<close>, and wrap it.
\<close>

definition rotate_yaw :: "tensor \<Rightarrow> tensor \<Rightarrow> tensor \<Rightarrow> int \<Rightarrow> error + tensor" where
  "rotate_yaw yaw yaw_vector rt_mat dst =
     (case matmul_t yaw_vector (slice_33 rt_mat) of
        Inl e \<Rightarrow> Inl e
      | Inr rot_yaw_vector \<Rightarrow>
          if dst = CAM then
            (case index_col rot_yaw_vector 2 of
               Inl e \<Rightarrow> Inl e
             | Inr c2 \<Rightarrow>
                 (case index_col rot_yaw_vector 0 of
                    Inl e \<Rightarrow> Inl e
                  | Inr c0 \<Rightarrow> Inr (limit_period_t (tmap2 atan2 (tmap uminus c2) c0))))
          else if dst = LIDAR \<or> dst = DEPTH then
            (case index_col rot_yaw_vector 1 of
               Inl e \<Rightarrow> Inl e
             | Inr c1 \<Rightarrow>
                 (case index_col rot_yaw_vector 0 of
                    Inl e \<Rightarrow> Inl e
                  | Inr c0 \<Rightarrow> Inr (limit_period_t (tmap2 atan2 c1 c0))))
          else Inr (limit_period_t yaw))"

text \<open>Lines 124 to 246 of the source: from the buffer \<open>arr\<close> to the converted buffer.\<close>

definition convert_arr ::
  "tensor \<Rightarrow> int \<Rightarrow> int \<Rightarrow> tensor option \<Rightarrow> bool \<Rightarrow> bool \<Rightarrow> error + tensor" where
  "convert_arr arr src dst rt_mat0 with_yaw correct_yaw =
     (case dispatch arr src dst rt_mat0 with_yaw correct_yaw of
        Inl e \<Rightarrow> Inl e
      | Inr (rt_mat, xyz_size, yaw_vector, yaw1) \<Rightarrow>
          (case transform_xyz arr rt_mat of
             Inl e \<Rightarrow> Inl e
           | Inr xyz \<Rightarrow>
               (case (if with_yaw \<and> correct_yaw then rotate_yaw yaw1 yaw_vector rt_mat dst
                      else Inr yaw1) of
                  Inl e \<Rightarrow> Inl e
                | Inr yaw \<Rightarrow>
                    Inr (if with_yaw
                         then cat_cols (slice_cols 0 3 xyz) [xyz_size, yaw, slice_from 7 arr]
                         else cat_cols (slice_cols 0 3 xyz) [xyz_size, slice_from 6 arr]))))"

subsection \<open>Boxes and the conversion\<close>

text \<open>
  The kinds of box that \<^verbatim>\<open>convert\<close> tells apart: a list or tuple of numbers
  (\<^verbatim>\<open>single_box\<close>), a numpy array (\<^verbatim>\<open>is_numpy\<close>), an instance of
  \<^verbatim>\<open>BaseInstance3DBoxes\<close> (\<^verbatim>\<open>is_Instance3DBoxes\<close>), and a torch tensor otherwise.
\<close>

datatype seq_type = PyList | PyTuple

text \<open>
  Modelled from the spec: the classes \<^verbatim>\<open>BaseInstance3DBoxes\<close>, \<^verbatim>\<open>CameraInstance3DBoxes\<close>,
  \<^verbatim>\<open>LiDARInstance3DBoxes\<close> and \<^verbatim>\<open>DepthInstance3DBoxes\<close> are not part of the sources at hand.
  The spec's BoxSet is an object "exposing its own \<open>with_yaw\<close> flag" and "an underlying
  (N,k) numeric buffer", and the output is "the destination coordinate system's concrete
  BoxSet subtype with the new buffer and the same \<open>with_yaw\<close> flag".  An instance is
  therefore its class, its buffer (\<^verbatim>\<open>box.tensor\<close>) and its flag (\<^verbatim>\<open>box.with_yaw\<close>), and the
  constructor call \<^verbatim>\<open>target_type(arr, box_dim=arr.size(-1), with_yaw=with_yaw)\<close> builds the
  instance of these three.
\<close>

datatype boxes_type =
  BaseInstance3DBoxes | CameraInstance3DBoxes | LiDARInstance3DBoxes | DepthInstance3DBoxes

datatype box =
  Sequence seq_type "real list"
| NdArray tensor
| TorchTensor tensor
| Instance3DBoxes boxes_type tensor bool

text \<open>
  The entry of \<^verbatim>\<open>convert\<close> after the identity shortcut: the length assertion on a list or
  tuple, and the working buffer \<open>arr\<close>, which is a new tensor in every case
  (\<^verbatim>\<open>torch.tensor(box)[None, :]\<close> or a \<^verbatim>\<open>clone()\<close>).
\<close>

fun to_arr :: "box \<Rightarrow> error + tensor" where
  "to_arr (Sequence ty xs) =
     (if length xs \<ge> 7 then Inr \<lparr>ncols = length xs, rows = [xs]\<rparr> else Inl AssertionError)"
| "to_arr (NdArray t) = Inr t"
| "to_arr (TorchTensor t) = Inr t"
| "to_arr (Instance3DBoxes ty t wy) = Inr t"

text \<open>\<^verbatim>\<open>if is_Instance3DBoxes: with_yaw = box.with_yaw\<close>\<close>

fun effective_with_yaw :: "box \<Rightarrow> bool \<Rightarrow> bool" where
  "effective_with_yaw (Instance3DBoxes ty t wy) with_yaw = wy"
| "effective_with_yaw _ with_yaw = with_yaw"

text \<open>The exit of \<^verbatim>\<open>convert\<close>: the converted buffer in the kind of the input.\<close>

fun from_arr :: "box \<Rightarrow> tensor \<Rightarrow> int \<Rightarrow> bool \<Rightarrow> error + box" where
  "from_arr (Sequence ty xs) arr dst with_yaw = Inr (Sequence ty (concat (rows arr)))"
| "from_arr (NdArray t) arr dst with_yaw = Inr (NdArray arr)"
| "from_arr (Instance3DBoxes ty t wy) arr dst with_yaw =
     (if dst = CAM then Inr (Instance3DBoxes CameraInstance3DBoxes arr with_yaw)
      else if dst = LIDAR then Inr (Instance3DBoxes LiDARInstance3DBoxes arr with_yaw)
      else if dst = DEPTH then Inr (Instance3DBoxes DepthInstance3DBoxes arr with_yaw)
      else Inl NotImplementedError)"
| "from_arr (TorchTensor t) arr dst with_yaw = Inr (TorchTensor arr)"

definition convert ::
  "box \<Rightarrow> int \<Rightarrow> int \<Rightarrow> tensor option \<Rightarrow> bool \<Rightarrow> bool \<Rightarrow> error + box" where
  "convert box src dst rt_mat with_yaw correct_yaw =
     (if src = dst then Inr box
      else
        (case to_arr box of
           Inl e \<Rightarrow> Inl e
         | Inr arr \<Rightarrow>
             (let with_yaw = effective_with_yaw box with_yaw in
              case convert_arr arr src dst rt_mat with_yaw correct_yaw of
                Inl e \<Rightarrow> Inl e
              | Inr arr' \<Rightarrow> from_arr box arr' dst with_yaw)))"

text \<open>
  The conversion of a single row of a buffer of width \<open>k\<close>: the row that \<open>convert_arr\<close>
  returns for the one-row buffer (and no row when it fails).
\<close>

definition convert_row ::
  "nat \<Rightarrow> real list \<Rightarrow> int \<Rightarrow> int \<Rightarrow> tensor option \<Rightarrow> bool \<Rightarrow> bool \<Rightarrow> real list" where
  "convert_row k r src dst rt_mat with_yaw correct_yaw =
     (case convert_arr \<lparr>ncols = k, rows = [r]\<rparr> src dst rt_mat with_yaw correct_yaw of
        Inl e \<Rightarrow> [] | Inr t \<Rightarrow> concat (rows t))"

text \<open>The tensor of the single row \<open>i\<close> of a tensor (of no row when \<open>i\<close> is out of range).\<close>

definition rowsel :: "nat \<Rightarrow> tensor \<Rightarrow> tensor" where
  "rowsel i t = \<lparr>ncols = ncols t, rows = take 1 (drop i (rows t))\<rparr>"

text \<open>The buffer of a box: the rows that the statements below read.\<close>

fun buffer :: "box \<Rightarrow> tensor" where
  "buffer (Sequence ty xs) = \<lparr>ncols = length xs, rows = [xs]\<rparr>"
| "buffer (NdArray t) = t"
| "buffer (TorchTensor t) = t"
| "buffer (Instance3DBoxes ty t wy) = t"

subsection \<open>The conversion on a store of objects\<close>

text \<open>
  Boxes are Python objects, passed by reference.  A store is the list of the objects
  allocated so far and a reference is an index into it.  The call returns its result (an
  error or a reference) and the store it leaves behind.  \<^verbatim>\<open>return box\<close> of the identity
  shortcut returns the reference it was given; \<^verbatim>\<open>torch.tensor(box)[None, :]\<close> and
  \<^verbatim>\<open>clone()\<close> allocate the working buffer, every later operation (slices, \<^verbatim>\<open>torch.cat\<close>,
  products) builds new tensors from it, and the result is a new object.
\<close>

type_synonym heap = "box list"

definition alloc :: "box \<Rightarrow> heap \<Rightarrow> nat \<times> heap" where
  "alloc obj h = (length h, h @ [obj])"

definition convert_ref ::
  "heap \<Rightarrow> nat \<Rightarrow> int \<Rightarrow> int \<Rightarrow> tensor option \<Rightarrow> bool \<Rightarrow> bool \<Rightarrow> (error + nat) \<times> heap" where
  "convert_ref h box src dst rt_mat with_yaw correct_yaw =
     (if src = dst then (Inr box, h)
      else
        (case to_arr (h ! box) of
           Inl e \<Rightarrow> (Inl e, h)
         | Inr arr \<Rightarrow>
             (let (a, h1) = alloc (TorchTensor arr) h;
                  with_yaw = effective_with_yaw (h ! box) with_yaw
              in case convert_arr (buffer (h1 ! a)) src dst rt_mat with_yaw correct_yaw of
                   Inl e \<Rightarrow> (Inl e, h1)
                 | Inr arr' \<Rightarrow>
                     (case from_arr (h ! box) arr' dst with_yaw of
                        Inl e \<Rightarrow> (Inl e, h1)
                      | Inr out \<Rightarrow> (let (r, h2) = alloc out h1 in (Inr r, h2))))))"

subsection \<open>One box at a time\<close>

text \<open>
  The yaw of a single box, as the branches of the dispatch and the \<^verbatim>\<open>correct_yaw\<close> block
  compute it entry by entry: the closed-form fixup of each pair, the direction vector
  built from the yaw in the convention of \<open>src\<close>, and the angle read off the vector
  rotated by \<^verbatim>\<open>rt_mat[:3, :3]\<close> in the convention of \<open>dst\<close>.
\<close>

definition fixed_yaw :: "int \<Rightarrow> int \<Rightarrow> real \<Rightarrow> real" where
  "fixed_yaw src dst yaw =
     (if src = LIDAR \<and> dst = CAM then limit_period (- yaw - pi / 2) (pi * 2)
      else if src = CAM \<and> dst = LIDAR then limit_period (- yaw - pi / 2) (pi * 2)
      else if src = DEPTH \<and> dst = CAM then - yaw
      else if src = CAM \<and> dst = DEPTH then - yaw
      else if src = LIDAR \<and> dst = DEPTH then limit_period (yaw + pi / 2) (pi * 2)
      else if src = DEPTH \<and> dst = LIDAR then limit_period (yaw - pi / 2) (pi * 2)
      else yaw)"

definition yaw_direction :: "int \<Rightarrow> real \<Rightarrow> real list" where
  "yaw_direction src yaw =
     (if src = CAM then [cos (- yaw), 0, sin (- yaw)] else [cos yaw, sin yaw, 0])"

definition rotated_yaw :: "tensor \<Rightarrow> int \<Rightarrow> int \<Rightarrow> real \<Rightarrow> real" where
  "rotated_yaw rt_mat src dst yaw =
     (let rot_yaw_vector = map (dot (yaw_direction src yaw)) (rows (slice_33 rt_mat)) in
      limit_period
        (if dst = CAM then atan2 (- (rot_yaw_vector ! 2)) (rot_yaw_vector ! 0)
         else atan2 (rot_yaw_vector ! 1) (rot_yaw_vector ! 0))
        (pi * 2))"

text \<open>The matrix that the dispatch takes when \<open>rt_mat\<close> is None.\<close>

definition default_rt_mat :: "int \<Rightarrow> int \<Rightarrow> tensor" where
  "default_rt_mat src dst =
     (case dispatch \<lparr>ncols = 0, rows = []\<rparr> src dst None False False of
        Inl e \<Rightarrow> new_tensor []
      | Inr (rt_mat, xyz_size, yaw_vector, yaw) \<Rightarrow> rt_mat)"

text \<open>The matrix in use: the caller's, or the default one of the pair.\<close>

definition effective_rt_mat :: "int \<Rightarrow> int \<Rightarrow> tensor option \<Rightarrow> tensor" where
  "effective_rt_mat src dst rt_mat =
     (case rt_mat of None \<Rightarrow> default_rt_mat src dst | Some m \<Rightarrow> m)"

subsection \<open>Well-formed inputs and the fields of a row\<close>

text \<open>
  The inputs of the spec's contract: a flat list or tuple of at least 7 numbers; an
  \<open>N \<times> k\<close> array or tensor with \<open>k \<ge> 7\<close> (\<open>k \<ge> 6\<close> without yaw), or a box set over such a
  buffer, whose own \<open>with_yaw\<close> flag counts.  A matrix is \<open>3 \<times> 3\<close> or \<open>3 \<times> 4\<close>; the
  source takes any matrix of three or four columns and at least three rows (a \<open>4 \<times> 4\<close>
  homogeneous matrix, of which it keeps the first three output coordinates).
\<close>

fun well_formed :: "box \<Rightarrow> bool \<Rightarrow> bool" where
  "well_formed (Sequence ty xs) with_yaw = (7 \<le> length xs)"
| "well_formed (NdArray t) with_yaw = (wf_tensor t \<and> (if with_yaw then 7 else 6) \<le> ncols t)"
| "well_formed (TorchTensor t) with_yaw =
     (wf_tensor t \<and> (if with_yaw then 7 else 6) \<le> ncols t)"
| "well_formed (Instance3DBoxes ty t wy) with_yaw =
     (wf_tensor t \<and> (if wy then 7 else 6) \<le> ncols t)"

text \<open>The inputs that fail the length assertion: a list or tuple of fewer than 7 numbers.\<close>

fun short_sequence :: "box \<Rightarrow> bool" where
  "short_sequence (Sequence ty xs) = (length xs < 7)"
| "short_sequence (NdArray t) = False"
| "short_sequence (TorchTensor t) = False"
| "short_sequence (Instance3DBoxes ty t wy) = False"

definition valid_rt_mat :: "tensor option \<Rightarrow> bool" where
  "valid_rt_mat rt_mat =
     (case rt_mat of
        None \<Rightarrow> True
      | Some m \<Rightarrow> (ncols m = 3 \<or> ncols m = 4) \<and> 3 \<le> length (rows m))"

definition center :: "real list \<Rightarrow> real list" where
  "center r = take 3 r"

definition sizes :: "real list \<Rightarrow> real list" where
  "sizes r = take 3 (drop 3 r)"

definition yaw_of :: "real list \<Rightarrow> real" where
  "yaw_of r = r ! 6"

text \<open>Two angles that differ by a multiple of \<open>2\<pi>\<close>.\<close>

definition same_angle :: "real \<Rightarrow> real \<Rightarrow> bool" where
  "same_angle a b = (\<exists>k::int. a = b + 2 * pi * of_int k)"


section \<open>Basic facts\<close>

lemma modes_distinct:
  "LIDAR \<noteq> CAM" "CAM \<noteq> LIDAR" "LIDAR \<noteq> DEPTH"
  "DEPTH \<noteq> LIDAR" "CAM \<noteq> DEPTH" "DEPTH \<noteq> CAM"
  by (simp_all add: LIDAR_def CAM_def DEPTH_def)

lemma dispatch_supported:
  assumes "dispatch arr src dst rt wy cy = Inr res"
  shows "(src, dst) \<in> set supported_pairs"
proof (rule ccontr)
  assume "(src, dst) \<notin> set supported_pairs"
  then have "dispatch arr src dst rt wy cy = Inl NotImplementedError"
    by (simp add: dispatch_def supported_pairs_def Let_def)
  with assms show False by simp
qed

lemma supported_pairs_cases [consumes 1, case_names LC CL DC CD LD DL]:
  assumes "(src, dst) \<in> set supported_pairs"
  obtains "src = LIDAR" "dst = CAM" | "src = CAM" "dst = LIDAR" | "src = DEPTH" "dst = CAM"
    | "src = CAM" "dst = DEPTH" | "src = LIDAR" "dst = DEPTH" | "src = DEPTH" "dst = LIDAR"
  using assms by (auto simp: supported_pairs_def)

lemma supported_distinct: "(src, dst) \<in> set supported_pairs \<Longrightarrow> src \<noteq> dst"
  by (auto simp: supported_pairs_def modes_distinct)

subsection \<open>The transform works row by row\<close>

text \<open>Every tensor operation commutes with the selection of a row.\<close>

lemma rowsel_slice_cols: "slice_cols a b (rowsel i t) = rowsel i (slice_cols a b t)"
  by (simp add: slice_cols_def rowsel_def take_map drop_map)

lemma rowsel_slice_from: "slice_from a (rowsel i t) = rowsel i (slice_from a t)"
  by (simp add: slice_from_def rowsel_def take_map drop_map)

lemma rowsel_hcat: "hcat (rowsel i t) (rowsel i u) = rowsel i (hcat t u)"
  by (simp add: hcat_def rowsel_def take_map drop_map take_zip drop_zip)

lemma rowsel_tmap: "tmap f (rowsel i t) = rowsel i (tmap f t)"
  by (simp add: tmap_def rowsel_def take_map drop_map)

lemma rowsel_tmap2: "tmap2 f (rowsel i t) (rowsel i u) = rowsel i (tmap2 f t u)"
  by (simp add: tmap2_def rowsel_def take_map drop_map take_zip drop_zip)

lemma rowsel_zeros_like: "zeros_like (rowsel i t) = rowsel i (zeros_like t)"
  by (simp add: zeros_like_def rowsel_tmap)

lemma rowsel_limit_period_t: "limit_period_t (rowsel i t) = rowsel i (limit_period_t t)"
  by (simp add: limit_period_t_def rowsel_tmap)

lemma rowsel_new_ones:
  "new_ones (length (rows (rowsel i t))) k = rowsel i (new_ones (length (rows t)) k)"
  by (simp add: new_ones_def rowsel_def min_def)

lemma rowsel_matmul_t: "matmul_t (rowsel i t) m = map_sum id (rowsel i) (matmul_t t m)"
  by (simp add: matmul_t_def rowsel_def take_map drop_map)

lemma rowsel_index_col: "index_col (rowsel i t) j = map_sum id (rowsel i) (index_col t j)"
  by (simp add: index_col_def rowsel_def take_map drop_map)

lemmas rowsel_ops = rowsel_slice_cols rowsel_slice_from rowsel_hcat rowsel_tmap rowsel_tmap2
  rowsel_zeros_like rowsel_limit_period_t

lemma rowsel_dispatch:
  "dispatch (rowsel i arr) src dst rt wy cy =
     map_sum id (\<lambda>(m, sz, yv, y1). (m, rowsel i sz, rowsel i yv, rowsel i y1))
       (dispatch arr src dst rt wy cy)"
  unfolding dispatch_def Let_def yaw_vector_xy_def yaw_vector_xz_def rowsel_ops cat_cols.simps
  by (simp add: LIDAR_def CAM_def DEPTH_def)

lemma rowsel_transform_xyz:
  "transform_xyz (rowsel i arr) m = map_sum id (rowsel i) (transform_xyz arr m)"
proof -
  have "new_ones (length (rows (rowsel i arr))) 1 = rowsel i (new_ones (length (rows arr)) 1)"
    by (rule rowsel_new_ones)
  then show ?thesis
    by (simp add: transform_xyz_def rowsel_slice_cols rowsel_hcat rowsel_matmul_t)
qed

lemma rowsel_rotate_yaw:
  "rotate_yaw (rowsel i y) (rowsel i yv) m dst = map_sum id (rowsel i) (rotate_yaw y yv m dst)"
proof (cases "matmul_t yv (slice_33 m)")
  case (Inl e)
  then show ?thesis by (simp add: rotate_yaw_def rowsel_matmul_t)
next
  case (Inr rot)
  show ?thesis
    by (cases "index_col rot 0"; cases "index_col rot 1"; cases "index_col rot 2")
       (simp_all add: rotate_yaw_def rowsel_matmul_t Inr rowsel_index_col rowsel_ops)
qed

lemma rowsel_convert_arr:
  "convert_arr (rowsel i arr) src dst rt wy cy =
     map_sum id (rowsel i) (convert_arr arr src dst rt wy cy)"
proof (cases "dispatch arr src dst rt wy cy")
  case (Inl e)
  then show ?thesis by (simp add: convert_arr_def rowsel_dispatch)
next
  case (Inr res)
  obtain m sz yv y1 where res: "res = (m, sz, yv, y1)" by (cases res) auto
  show ?thesis
  proof (cases "transform_xyz arr m")
    case (Inl e)
    then show ?thesis using Inr res
      by (simp add: convert_arr_def rowsel_dispatch rowsel_transform_xyz)
  next
    case xyz: (Inr xyz)
    show ?thesis
    proof (cases "wy \<and> cy")
      case True
      then show ?thesis using Inr res xyz
        by (cases "rotate_yaw y1 yv m dst")
           (simp_all add: convert_arr_def rowsel_dispatch rowsel_transform_xyz rowsel_rotate_yaw
              rowsel_ops)
    next
      case False
      then show ?thesis using Inr res xyz
        by (auto simp: convert_arr_def rowsel_dispatch rowsel_transform_xyz rowsel_ops)
    qed
  qed
qed

text \<open>The number of rows is kept.\<close>

lemma dispatch_length:
  assumes "dispatch arr src dst rt wy cy = Inr (m, sz, yv, y1)"
  shows "length (rows sz) = length (rows arr) \<and> length (rows yv) = length (rows arr)
       \<and> length (rows y1) = length (rows arr)"
  using dispatch_supported [OF assms] assms
  by (cases rule: supported_pairs_cases)
     (auto simp: dispatch_def Let_def yaw_vector_xy_def yaw_vector_xz_def modes_distinct
       hcat_def tmap_def zeros_like_def slice_cols_def limit_period_t_def)

lemma transform_xyz_length:
  assumes "transform_xyz arr m = Inr xyz"
  shows "length (rows xyz) = length (rows arr)"
  using assms
  by (auto simp: transform_xyz_def matmul_t_def hcat_def slice_cols_def new_ones_def
      split: if_splits)

lemma rotate_yaw_length:
  assumes "rotate_yaw y1 yv m dst = Inr y" "length (rows y1) = n" "length (rows yv) = n"
  shows "length (rows y) = n"
  using assms
  by (auto simp: rotate_yaw_def matmul_t_def index_col_def tmap_def tmap2_def limit_period_t_def
      split: if_splits sum.splits)

lemma convert_arr_length:
  assumes "convert_arr arr src dst rt wy cy = Inr out"
  shows "length (rows out) = length (rows arr)"
proof -
  from assms obtain m sz yv y1 where d: "dispatch arr src dst rt wy cy = Inr (m, sz, yv, y1)"
    by (auto simp: convert_arr_def split: sum.splits)
  from assms d obtain xyz where x: "transform_xyz arr m = Inr xyz"
    by (auto simp: convert_arr_def split: sum.splits)
  from assms d x obtain y where
    y: "(if wy \<and> cy then rotate_yaw y1 yv m dst else Inr y1) = Inr y"
    and out: "out = (if wy then cat_cols (slice_cols 0 3 xyz) [sz, y, slice_from 7 arr]
                     else cat_cols (slice_cols 0 3 xyz) [sz, slice_from 6 arr])"
    by (auto simp: convert_arr_def split: sum.splits)
  note dl = dispatch_length [OF d]
  have yl: "length (rows y) = length (rows arr)"
    using y dl rotate_yaw_length [of y1 yv m dst y "length (rows arr)"]
    by (auto split: if_splits)
  show ?thesis
    using out dl yl transform_xyz_length [OF x]
    by (simp add: hcat_def slice_cols_def slice_from_def)
qed

text \<open>Hence the converted buffer is the list of the converted rows.\<close>

lemma convert_arr_rows:
  assumes "convert_arr arr src dst rt wy cy = Inr out"
  shows "rows out = map (\<lambda>r. convert_row (ncols arr) r src dst rt wy cy) (rows arr)"
proof (rule nth_equalityI)
  show "length (rows out) =
      length (map (\<lambda>r. convert_row (ncols arr) r src dst rt wy cy) (rows arr))"
    using convert_arr_length [OF assms] by simp
next
  fix i assume "i < length (rows out)"
  then have i: "i < length (rows arr)" and i': "i < length (rows out)"
    using convert_arr_length [OF assms] by simp_all
  have sel: "rowsel i arr = \<lparr>ncols = ncols arr, rows = [rows arr ! i]\<rparr>"
    using i by (simp add: rowsel_def hd_drop_conv_nth take_Suc)
  have "convert_arr (rowsel i arr) src dst rt wy cy = Inr (rowsel i out)"
    by (simp add: rowsel_convert_arr assms)
  moreover have "rows (rowsel i out) = [rows out ! i]"
    using i' by (simp add: rowsel_def hd_drop_conv_nth take_Suc)
  ultimately have "convert_row (ncols arr) (rows arr ! i) src dst rt wy cy = rows out ! i"
    by (simp add: convert_row_def sel [symmetric])
  then show "rows out ! i =
      map (\<lambda>r. convert_row (ncols arr) r src dst rt wy cy) (rows arr) ! i"
    using i by simp
qed

subsection \<open>Angles\<close>

lemma limit_period_range:
  assumes "0 < p"
  shows "- (p / 2) \<le> limit_period v p" and "limit_period v p < p / 2"
proof -
  define q where "q = v / p + 1 / 2"
  define f where "f = q - of_int \<lfloor>q\<rfloor>"
  have v: "v = q * p - p / 2" using assms by (simp add: q_def field_simps)
  have "limit_period v p = v - of_int \<lfloor>q\<rfloor> * p"
    by (simp add: limit_period_def q_def)
  also have "\<dots> = f * p - p / 2"
    using v by (simp add: f_def algebra_simps)
  finally have lp: "limit_period v p = f * p - p / 2" .
  have f: "0 \<le> f" "f < 1" unfolding f_def by linarith+
  have a: "0 \<le> f * p" using f assms by simp
  have "f * p < 1 * p" using f(2) assms by (rule mult_strict_right_mono)
  then have b: "f * p < p" by simp
  show "- (p / 2) \<le> limit_period v p" using a by (simp add: lp)
  show "limit_period v p < p / 2" using b by (simp add: lp)
qed

lemma limit_period_2pi_range:
  "- pi \<le> limit_period v (pi * 2)" "limit_period v (pi * 2) < pi"
  using limit_period_range [of "pi * 2" v] by simp_all







subsection \<open>Angles up to a full turn\<close>


lemma same_angle_sym: "same_angle a b \<Longrightarrow> same_angle b a"
  unfolding same_angle_def
proof -
  assume "\<exists>k::int. a = b + 2 * pi * of_int k"
  then obtain k :: int where "a = b + 2 * pi * of_int k" ..
  then have "b = a + 2 * pi * of_int (- k)" by simp
  then show "\<exists>k::int. b = a + 2 * pi * of_int k" ..
qed









subsection \<open>Shapes, and the default matrices\<close>

lemma ncols_simps:
  "ncols (slice_cols a b t) = min b (ncols t) - a"
  "ncols (slice_from a t) = ncols t - a"
  "ncols (hcat t u) = ncols t + ncols u"
  "ncols (tmap f t) = ncols t"
  "ncols (tmap2 g t u) = ncols t"
  "ncols (zeros_like t) = ncols t"
  "ncols (new_ones n k) = k"
  "ncols (limit_period_t t) = ncols t"
  "ncols (slice_33 m) = min 3 (ncols m)"
  "length (rows (slice_33 m)) = min 3 (length (rows m))"
  by (simp_all add: slice_cols_def slice_from_def hcat_def tmap_def tmap2_def zeros_like_def
      new_ones_def limit_period_t_def slice_33_def)

lemma dispatch_None:
  assumes "(src, dst) \<in> set supported_pairs"
  shows "dispatch arr src dst None wy cy = dispatch arr src dst (Some (default_rt_mat src dst)) wy cy"
  using assms
  by (cases rule: supported_pairs_cases)
     (simp_all add: dispatch_def default_rt_mat_def Let_def modes_distinct default_to_def)

lemma convert_arr_None:
  assumes "(src, dst) \<in> set supported_pairs"
  shows "convert_arr arr src dst None wy cy =
         convert_arr arr src dst (Some (default_rt_mat src dst)) wy cy"
  by (simp add: convert_arr_def dispatch_None [OF assms])

lemma default_rt_mat_simps:
  "default_rt_mat LIDAR CAM = \<lparr>ncols = 3, rows = [[0, -1, 0], [0, 0, -1], [1, 0, 0]]\<rparr>"
  "default_rt_mat CAM LIDAR = \<lparr>ncols = 3, rows = [[0, 0, 1], [-1, 0, 0], [0, -1, 0]]\<rparr>"
  "default_rt_mat DEPTH CAM = \<lparr>ncols = 3, rows = [[1, 0, 0], [0, 0, -1], [0, 1, 0]]\<rparr>"
  "default_rt_mat CAM DEPTH = \<lparr>ncols = 3, rows = [[1, 0, 0], [0, 0, 1], [0, -1, 0]]\<rparr>"
  "default_rt_mat LIDAR DEPTH = \<lparr>ncols = 3, rows = [[0, -1, 0], [1, 0, 0], [0, 0, 1]]\<rparr>"
  "default_rt_mat DEPTH LIDAR = \<lparr>ncols = 3, rows = [[0, 1, 0], [-1, 0, 0], [0, 0, 1]]\<rparr>"
  by (simp_all add: default_rt_mat_def dispatch_def Let_def modes_distinct default_to_def
      new_tensor_def)

lemma valid_default_rt_mat:
  assumes "(src, dst) \<in> set supported_pairs"
  shows "ncols (default_rt_mat src dst) = 3" "length (rows (default_rt_mat src dst)) = 3"
  using assms by (cases rule: supported_pairs_cases; simp add: default_rt_mat_simps)+


subsection \<open>The conversion of one row\<close>

lemmas eval_defs = convert_arr_def dispatch_def transform_xyz_def rotate_yaw_def
  default_to_def new_tensor_def slice_cols_def slice_from_def hcat_def tmap_def
  tmap2_def zeros_like_def new_ones_def limit_period_t_def matmul_t_def index_col_def
  yaw_vector_xy_def yaw_vector_xz_def modes_distinct Let_def

lemma one_row_yaw:
  assumes "(src, dst) \<in> set supported_pairs" "ncols m = 3 \<or> ncols m = 4"
    "3 \<le> length (rows m)" "7 \<le> k"
  shows "convert_arr \<lparr>ncols = k, rows = [x # y # z # dx # dy # dz # yaw # rest]\<rparr>
           src dst (Some m) True cy =
         Inr \<lparr>ncols = k, rows =
           [take 3 (map (dot (if ncols m = 4 then [x, y, z, 1] else [x, y, z])) (rows m)) @
            (if src = CAM \<or> dst = CAM then [dx, dz, dy] else [dx, dy, dz]) @
            (if cy then rotated_yaw m src dst yaw else fixed_yaw src dst yaw) # rest]\<rparr>"
  using assms
  by (cases rule: supported_pairs_cases)
     (auto simp: eval_defs min_def ncols_simps fixed_yaw_def rotated_yaw_def yaw_direction_def)

lemma one_row_no_yaw:
  assumes "(src, dst) \<in> set supported_pairs" "ncols m = 3 \<or> ncols m = 4"
    "3 \<le> length (rows m)" "6 \<le> k"
  shows "convert_arr \<lparr>ncols = k, rows = [x # y # z # dx # dy # dz # rest]\<rparr>
           src dst (Some m) False cy =
         Inr \<lparr>ncols = k, rows =
           [take 3 (map (dot (if ncols m = 4 then [x, y, z, 1] else [x, y, z])) (rows m)) @
            (if src = CAM \<or> dst = CAM then [dx, dz, dy] else [dx, dy, dz]) @ rest]\<rparr>"
  using assms
  by (cases rule: supported_pairs_cases)
     (auto simp: eval_defs min_def)

lemma convert_arr_succeeds_Some:
  assumes "(src, dst) \<in> set supported_pairs" "ncols m = 3 \<or> ncols m = 4"
    "3 \<le> length (rows m)" "(if wy then 7 else 6) \<le> ncols arr"
  shows "\<exists>out. convert_arr arr src dst (Some m) wy cy = Inr out \<and> ncols out = ncols arr"
  using assms
  by (cases rule: supported_pairs_cases)
     (auto simp: convert_arr_def dispatch_def transform_xyz_def rotate_yaw_def matmul_t_def
        index_col_def default_to_def Let_def modes_distinct ncols_simps yaw_vector_xy_def
        yaw_vector_xz_def min_def split: if_splits)

lemma valid_effective_rt_mat:
  assumes "(src, dst) \<in> set supported_pairs" "valid_rt_mat rt"
  shows "ncols (effective_rt_mat src dst rt) = 3 \<or> ncols (effective_rt_mat src dst rt) = 4"
    and "3 \<le> length (rows (effective_rt_mat src dst rt))"
  using assms valid_default_rt_mat [OF assms(1)]
  by (auto simp: effective_rt_mat_def valid_rt_mat_def split: option.splits)

lemma convert_arr_effective:
  assumes "(src, dst) \<in> set supported_pairs"
  shows "convert_arr arr src dst rt wy cy =
         convert_arr arr src dst (Some (effective_rt_mat src dst rt)) wy cy"
  using convert_arr_None [OF assms]
  by (cases rt) (simp_all add: effective_rt_mat_def)

lemma convert_arr_succeeds:
  assumes "(src, dst) \<in> set supported_pairs" "valid_rt_mat rt"
    "(if wy then 7 else 6) \<le> ncols arr"
  shows "\<exists>out. convert_arr arr src dst rt wy cy = Inr out \<and> ncols out = ncols arr"
  using convert_arr_succeeds_Some [OF assms(1) valid_effective_rt_mat [OF assms(1,2)] assms(3)]
  by (simp add: convert_arr_effective [OF assms(1), of arr rt])

lemma row7:
  assumes "7 \<le> length r"
  shows "r = r ! 0 # r ! 1 # r ! 2 # r ! 3 # r ! 4 # r ! 5 # r ! 6 # drop 7 r"
proof -
  obtain a r1 where 1: "r = a # r1" using assms by (cases r) auto
  obtain b r2 where 2: "r1 = b # r2" using assms 1 by (cases r1) auto
  obtain c r3 where 3: "r2 = c # r3" using assms 1 2 by (cases r2) auto
  obtain d r4 where 4: "r3 = d # r4" using assms 1 2 3 by (cases r3) auto
  obtain e r5 where 5: "r4 = e # r5" using assms 1 2 3 4 by (cases r4) auto
  obtain f r6 where 6: "r5 = f # r6" using assms 1 2 3 4 5 by (cases r5) auto
  obtain g r7 where 7: "r6 = g # r7" using assms 1 2 3 4 5 6 by (cases r6) auto
  show ?thesis by (simp add: 1 2 3 4 5 6 7)
qed

lemma row6:
  assumes "6 \<le> length r"
  shows "r = r ! 0 # r ! 1 # r ! 2 # r ! 3 # r ! 4 # r ! 5 # drop 6 r"
proof -
  obtain a r1 where 1: "r = a # r1" using assms by (cases r) auto
  obtain b r2 where 2: "r1 = b # r2" using assms 1 by (cases r1) auto
  obtain c r3 where 3: "r2 = c # r3" using assms 1 2 by (cases r2) auto
  obtain d r4 where 4: "r3 = d # r4" using assms 1 2 3 by (cases r3) auto
  obtain e r5 where 5: "r4 = e # r5" using assms 1 2 3 4 by (cases r4) auto
  obtain f r6 where 6: "r5 = f # r6" using assms 1 2 3 4 5 by (cases r5) auto
  show ?thesis by (simp add: 1 2 3 4 5 6)
qed

lemma convert_row_yaw:
  assumes "(src, dst) \<in> set supported_pairs" "valid_rt_mat rt" "length r = k" "7 \<le> k"
  shows "convert_row k r src dst rt True cy =
     (let m = effective_rt_mat src dst rt in
      take 3 (map (dot (if ncols m = 4 then take 3 r @ [1] else take 3 r)) (rows m)) @
      (if src = CAM \<or> dst = CAM then [r ! 3, r ! 5, r ! 4] else [r ! 3, r ! 4, r ! 5]) @
      (if cy then rotated_yaw m src dst (r ! 6) else fixed_yaw src dst (r ! 6)) # drop 7 r)"
proof -
  define m where "m = effective_rt_mat src dst rt"
  have r: "r = r ! 0 # r ! 1 # r ! 2 # r ! 3 # r ! 4 # r ! 5 # r ! 6 # drop 7 r"
    using assms(3,4) by (intro row7) simp
  have t: "take 3 r = [r ! 0, r ! 1, r ! 2]"
    by (subst r) simp
  have "convert_row k r src dst rt True cy =
      (case convert_arr \<lparr>ncols = k, rows = [r]\<rparr> src dst (Some m) True cy of
         Inl e \<Rightarrow> [] | Inr t \<Rightarrow> concat (rows t))"
    by (simp add: convert_row_def m_def convert_arr_effective [OF assms(1), of _ rt])
  also have "\<dots> =
      take 3 (map (dot (if ncols m = 4 then take 3 r @ [1] else take 3 r)) (rows m)) @
      (if src = CAM \<or> dst = CAM then [r ! 3, r ! 5, r ! 4] else [r ! 3, r ! 4, r ! 5]) @
      (if cy then rotated_yaw m src dst (r ! 6) else fixed_yaw src dst (r ! 6)) # drop 7 r"
    apply (subst r)
    apply (subst one_row_yaw [OF assms(1) _ _ assms(4)])
    using valid_effective_rt_mat [OF assms(1,2)] by (simp_all add: m_def t)
  finally show ?thesis by (simp add: m_def Let_def)
qed

lemma convert_row_no_yaw:
  assumes "(src, dst) \<in> set supported_pairs" "valid_rt_mat rt" "length r = k" "6 \<le> k"
  shows "convert_row k r src dst rt False cy =
     (let m = effective_rt_mat src dst rt in
      take 3 (map (dot (if ncols m = 4 then take 3 r @ [1] else take 3 r)) (rows m)) @
      (if src = CAM \<or> dst = CAM then [r ! 3, r ! 5, r ! 4] else [r ! 3, r ! 4, r ! 5]) @
      drop 6 r)"
proof -
  define m where "m = effective_rt_mat src dst rt"
  have r: "r = r ! 0 # r ! 1 # r ! 2 # r ! 3 # r ! 4 # r ! 5 # drop 6 r"
    using assms(3,4) by (intro row6) simp
  have t: "take 3 r = [r ! 0, r ! 1, r ! 2]"
    by (subst r) simp
  have "convert_row k r src dst rt False cy =
      (case convert_arr \<lparr>ncols = k, rows = [r]\<rparr> src dst (Some m) False cy of
         Inl e \<Rightarrow> [] | Inr t \<Rightarrow> concat (rows t))"
    by (simp add: convert_row_def m_def convert_arr_effective [OF assms(1), of _ rt])
  also have "\<dots> =
      take 3 (map (dot (if ncols m = 4 then take 3 r @ [1] else take 3 r)) (rows m)) @
      (if src = CAM \<or> dst = CAM then [r ! 3, r ! 5, r ! 4] else [r ! 3, r ! 4, r ! 5]) @
      drop 6 r"
    apply (subst r)
    apply (subst one_row_no_yaw [OF assms(1) _ _ assms(4)])
    using valid_effective_rt_mat [OF assms(1,2)] by (simp_all add: m_def t)
  finally show ?thesis by (simp add: m_def Let_def)
qed

lemma length_convert_row:
  assumes "(src, dst) \<in> set supported_pairs" "valid_rt_mat rt" "length r = k"
    "(if wy then 7 else 6) \<le> k"
  shows "length (convert_row k r src dst rt wy cy) = k"
proof (cases wy)
  case True
  then show ?thesis
    using assms valid_effective_rt_mat(2) [OF assms(1,2)]
    by (simp add: convert_row_yaw Let_def)
next
  case False
  then show ?thesis
    using assms valid_effective_rt_mat(2) [OF assms(1,2)]
    by (simp add: convert_row_no_yaw Let_def)
qed

lemma supported_dst:
  assumes "(src, dst) \<in> set supported_pairs"
  shows "dst = CAM \<or> dst = LIDAR \<or> dst = DEPTH"
  using assms by (cases rule: supported_pairs_cases) simp_all

lemma well_formed_buffer:
  assumes "well_formed b wy"
  shows "to_arr b = Inr (buffer b)" "wf_tensor (buffer b)"
    "(if effective_with_yaw b wy then 7 else 6) \<le> ncols (buffer b)"
  using assms by (cases b; simp add: wf_tensor_def)+

lemma convert_well_formed:
  assumes "(src, dst) \<in> set supported_pairs" "valid_rt_mat rt" "well_formed b wy"
  shows "\<exists>out. convert b src dst rt wy cy = Inr out \<and>
      rows (buffer out) =
        map (\<lambda>r. convert_row (ncols (buffer b)) r src dst rt (effective_with_yaw b wy) cy)
          (rows (buffer b)) \<and>
      ncols (buffer out) = ncols (buffer b) \<and>
      effective_with_yaw out wy = effective_with_yaw b wy \<and> well_formed out wy"
proof -
  define arr where "arr = buffer b"
  define w where "w = effective_with_yaw b wy"
  define f where "f = (\<lambda>r. convert_row (ncols arr) r src dst rt w cy)"
  note wfb = well_formed_buffer [OF assms(3), folded arr_def w_def]
  obtain arr' where arr': "convert_arr arr src dst rt w cy = Inr arr'"
    and nc: "ncols arr' = ncols arr"
    using convert_arr_succeeds [OF assms(1,2) wfb(3)] by blast
  have rows': "rows arr' = map f (rows arr)"
    using convert_arr_rows [OF arr'] by (simp add: f_def)
  have len: "\<And>r. r \<in> set (rows arr) \<Longrightarrow> length (f r) = ncols arr"
    using wfb(2,3) length_convert_row [OF assms(1,2)]
    by (simp add: f_def wf_tensor_def list_all_iff)
  have wf': "wf_tensor arr'"
    using len by (simp add: wf_tensor_def list_all_iff rows' nc)
  have ne: "src \<noteq> dst" using assms(1) by (rule supported_distinct)
  have conv: "convert b src dst rt wy cy = from_arr b arr' dst w"
    using ne wfb(1) arr' by (simp add: convert_def w_def)
  show ?thesis
  proof (cases b)
    case (Sequence ty xs)
    then have xs: "arr = \<lparr>ncols = length xs, rows = [xs]\<rparr>" "7 \<le> length xs"
      using assms(3) by (simp_all add: arr_def)
    have w: "w = wy" using Sequence by (simp add: w_def)
    have "length (f xs) = length xs" using len xs by simp
    then show ?thesis
      using Sequence conv rows' xs
      by (simp add: arr_def [symmetric] f_def w)
  next
    case (NdArray t)
    then have a: "arr = t" "w = wy" by (simp_all add: arr_def w_def)
    show ?thesis
      using NdArray conv rows' wf' nc wfb(3)
      by (simp add: a f_def)
  next
    case (TorchTensor t)
    then have a: "arr = t" "w = wy" by (simp_all add: arr_def w_def)
    show ?thesis
      using TorchTensor conv rows' wf' nc wfb(3)
      by (simp add: a f_def)
  next
    case (Instance3DBoxes ty t wy')
    then have a: "arr = t" "w = wy'" by (simp_all add: arr_def w_def)
    show ?thesis
      using Instance3DBoxes conv rows' wf' nc wfb(3) supported_dst [OF assms(1)]
      by (auto simp: a f_def modes_distinct)
  qed
qed

lemma convert_row_fields:
  assumes "(src, dst) \<in> set supported_pairs" "valid_rt_mat rt" "length r = k"
    "(if wy then 7 else 6) \<le> k"
  shows "center (convert_row k r src dst rt wy cy) =
      (let m = effective_rt_mat src dst rt in
       take 3 (map (dot (if ncols m = 4 then take 3 r @ [1] else take 3 r)) (rows m)))"
    and "sizes (convert_row k r src dst rt wy cy) =
      (if src = CAM \<or> dst = CAM then [r ! 3, r ! 5, r ! 4] else [r ! 3, r ! 4, r ! 5])"
    and "wy \<Longrightarrow> yaw_of (convert_row k r src dst rt wy cy) =
      (if cy then rotated_yaw (effective_rt_mat src dst rt) src dst (r ! 6)
       else fixed_yaw src dst (r ! 6))"
    and "drop (if wy then 7 else 6) (convert_row k r src dst rt wy cy) =
      drop (if wy then 7 else 6) r"
proof -
  define m where "m = effective_rt_mat src dst rt"
  define X where
    "X = take 3 (map (dot (if ncols m = 4 then take 3 r @ [1] else take 3 r)) (rows m))"
  define S where
    "S = (if src = CAM \<or> dst = CAM then [r ! 3, r ! 5, r ! 4] else [r ! 3, r ! 4, r ! 5])"
  define Y where
    "Y = (if cy then rotated_yaw m src dst (r ! 6) else fixed_yaw src dst (r ! 6))"
  have lX: "length X = 3"
    using valid_effective_rt_mat(2) [OF assms(1,2)] by (simp add: X_def m_def)
  have lS: "length S = 3" by (simp add: S_def)
  have row: "convert_row k r src dst rt wy cy = X @ S @ (if wy then Y # drop 7 r else drop 6 r)"
    using assms
    by (cases wy)
       (simp_all add: convert_row_yaw convert_row_no_yaw Let_def X_def S_def Y_def m_def)
  show "center (convert_row k r src dst rt wy cy) =
      (let m = effective_rt_mat src dst rt in
       take 3 (map (dot (if ncols m = 4 then take 3 r @ [1] else take 3 r)) (rows m)))"
    using lX by (simp add: row center_def Let_def X_def [symmetric] m_def [symmetric])
  show "sizes (convert_row k r src dst rt wy cy) =
      (if src = CAM \<or> dst = CAM then [r ! 3, r ! 5, r ! 4] else [r ! 3, r ! 4, r ! 5])"
    using lX lS by (simp add: row sizes_def S_def [symmetric])
  show "wy \<Longrightarrow> yaw_of (convert_row k r src dst rt wy cy) =
      (if cy then rotated_yaw (effective_rt_mat src dst rt) src dst (r ! 6)
       else fixed_yaw src dst (r ! 6))"
  proof -
    assume wy
    have "yaw_of (X @ S @ Y # drop 7 r) = Y"
      using lX lS by (simp add: yaw_of_def nth_append)
    then show ?thesis
      using row \<open>wy\<close> by (simp add: Y_def m_def)
  qed
  show "drop (if wy then 7 else 6) (convert_row k r src dst rt wy cy) =
      drop (if wy then 7 else 6) r"
    using lX lS by (simp add: row)
qed

lemma list_all2_map_same: "(\<And>x. x \<in> set xs \<Longrightarrow> P x (f x)) \<Longrightarrow> list_all2 P xs (map f xs)"
  by (simp add: list_all2_map2 list_all2_same)

lemma well_formed_rows:
  assumes "well_formed b wy" "r \<in> set (rows (buffer b))"
  shows "length r = ncols (buffer b)"
    "(if effective_with_yaw b wy then 7 else 6) \<le> ncols (buffer b)"
  using well_formed_buffer(2,3) [OF assms(1)] assms(2)
  by (simp_all add: wf_tensor_def list_all_iff)

lemma sizes_mset:
  assumes "6 \<le> length r"
  shows "mset (if c then [r ! 3, r ! 5, r ! 4] else [r ! 3, r ! 4, r ! 5]) = mset (sizes r)"
proof -
  have "sizes r = [r ! 3, r ! 4, r ! 5]"
    by (subst row6 [OF assms], subst (2) row6 [OF assms], subst (3) row6 [OF assms],
        subst (4) row6 [OF assms]) (simp add: sizes_def)
  then show ?thesis by simp
qed

lemma rotated_yaw_range:
  "- pi \<le> rotated_yaw m src dst yaw" "rotated_yaw m src dst yaw < pi"
  by (simp_all add: rotated_yaw_def Let_def limit_period_2pi_range)

lemma fixed_yaw_cases:
  assumes "(src, dst) \<in> set supported_pairs"
  shows "if (src = DEPTH \<and> dst = CAM) \<or> (src = CAM \<and> dst = DEPTH)
         then fixed_yaw src dst yaw = - yaw
         else - pi \<le> fixed_yaw src dst yaw \<and> fixed_yaw src dst yaw < pi"
  using assms
  by (cases rule: supported_pairs_cases)
     (simp_all add: fixed_yaw_def modes_distinct limit_period_2pi_range)

lemma rotated_yaw_slice_33:
  "slice_33 m1 = slice_33 m2 \<Longrightarrow> rotated_yaw m1 src dst yaw = rotated_yaw m2 src dst yaw"
  by (simp add: rotated_yaw_def)

lemma rotated_yaw_slice_33_idem:
  "rotated_yaw (slice_33 m) src dst yaw = rotated_yaw m src dst yaw"
  by (rule rotated_yaw_slice_33) (simp add: slice_33_def)

subsection \<open>There and back with the default matrices\<close>








subsection \<open>The store and the errors\<close>

text \<open>On the store, the call computes what \<open>convert\<close> computes on the object.\<close>

lemma convert_ref_convert:
  assumes "src \<noteq> dst"
  shows "map_sum id (\<lambda>r. snd (convert_ref h box src dst rt_mat with_yaw correct_yaw) ! r)
           (fst (convert_ref h box src dst rt_mat with_yaw correct_yaw)) =
         convert (h ! box) src dst rt_mat with_yaw correct_yaw"
  using assms
  by (auto simp: convert_ref_def convert_def alloc_def Let_def nth_append split: sum.splits)

text \<open>The length assertion is the only source of an AssertionError.\<close>

lemma convert_arr_no_AssertionError:
  "convert_arr arr src dst rt wy cy \<noteq> Inl AssertionError"
proof
  assume a: "convert_arr arr src dst rt wy cy = Inl AssertionError"
  have d: "dispatch arr src dst rt wy cy \<noteq> Inl AssertionError"
    by (simp add: dispatch_def Let_def)
  have x: "\<And>m. transform_xyz arr m \<noteq> Inl AssertionError"
    by (simp add: transform_xyz_def matmul_t_def)
  have r: "\<And>y yv m. rotate_yaw y yv m dst \<noteq> Inl AssertionError"
    by (auto simp: rotate_yaw_def matmul_t_def index_col_def split: sum.splits if_splits)
  from a d x r show False
    by (auto simp: convert_arr_def split: sum.splits prod.splits if_splits)
qed

lemma convert_AssertionError_iff:
  assumes "src \<noteq> dst"
  shows "convert box src dst rt wy cy = Inl AssertionError \<longleftrightarrow> short_sequence box"
proof (cases "short_sequence box")
  case True
  then have "to_arr box = Inl AssertionError" by (cases box) simp_all
  then show ?thesis using assms True by (simp add: convert_def)
next
  case False
  then obtain arr where arr: "to_arr box = Inr arr" by (cases box) auto
  have "from_arr box arr' dst w \<noteq> Inl AssertionError" for arr' w
    by (cases box) simp_all
  then show ?thesis
    using assms False arr convert_arr_no_AssertionError
    by (auto simp: convert_def Let_def split: sum.splits)
qed

section \<open>The claims\<close>

subsection \<open>C1: the LiDAR to camera scenario\<close>

lemma limit_period_neg_half_pi: "limit_period (- (pi / 2)) (pi * 2) = - (pi / 2)"
proof -
  have "- (pi / 2) / (pi * 2) + 1 / 2 = (1 / 4 :: real)"
    by (simp add: field_simps)
  then show ?thesis
    by (simp add: limit_period_def)
qed

text \<open>
  C1.  The flat box \<open>[1, 2, 3, 4, 5, 6, 0.0]\<close>, converted from LIDAR to CAM with no
  \<open>rt_mat\<close> (the default matrix) and \<open>correct_yaw = False\<close>, has center \<open>(-2, -3, 1)\<close>,
  sizes \<open>(4, 6, 5)\<close> and yaw \<open>-\<pi>/2\<close>.
\<close>

theorem C1_lidar_to_cam_scenario:
  "convert (Sequence PyList [1, 2, 3, 4, 5, 6, 0]) LIDAR CAM None True False
     = Inr (Sequence PyList [-2, -3, 1, 4, 6, 5, - (pi / 2)])"
  by (simp add: convert_def convert_arr_def dispatch_def modes_distinct transform_xyz_def
      default_to_def new_tensor_def slice_cols_def slice_from_def hcat_def tmap_def
      limit_period_t_def matmul_t_def dot_def limit_period_neg_half_pi)

subsection \<open>C2: the round trip\<close>




subsection \<open>C3: the range of the output yaw\<close>

text \<open>
  The depth to camera conversion with \<open>correct_yaw = False\<close> negates the yaw and does
  not wrap it: the yaw 4 becomes -4, which is below \<open>-\<pi>\<close>.
\<close>

theorem C3_counterexample:
  "convert (Sequence PyList [0, 0, 0, 1, 1, 1, 4]) DEPTH CAM None True False
     = Inr (Sequence PyList [0, 0, 0, 1, 1, 1, - 4]) \<and>
   \<not> (- pi \<le> yaw_of [0, 0, 0, 1, 1, 1, - 4])"
proof -
  have "convert (Sequence PyList [0, 0, 0, 1, 1, 1, 4]) DEPTH CAM None True False
     = Inr (Sequence PyList [0, 0, 0, 1, 1, 1, - 4])"
    by (simp add: convert_def convert_arr_def dispatch_def modes_distinct transform_xyz_def
      default_to_def new_tensor_def slice_cols_def slice_from_def hcat_def tmap_def
      matmul_t_def dot_def)
  moreover have "\<not> (- pi \<le> yaw_of [0, 0, 0, 1, 1, 1, - 4])"
    using pi_less_4 by (simp add: yaw_of_def)
  ultimately show ?thesis by simp
qed

text \<open>
  C3, amended.  For every supported pair, every well-formed box with a yaw and every
  matrix (the default one, or a caller's matrix of three or four columns and at least three
  rows), the conversion succeeds, and the output yaw lies in \<open>[-\<pi>, \<pi>)\<close> whenever
  \<open>correct_yaw\<close> is true or the pair is one of LIDAR/CAM and LIDAR/DEPTH (in either
  direction).  For DEPTH to CAM and CAM to DEPTH with \<open>correct_yaw = False\<close> the output
  yaw is the negated input yaw, not wrapped.  The range is that of \<open>limit_period\<close> as the
  spec describes it.
\<close>

theorem C3_yaw_range_amended:
  assumes "(src, dst) \<in> set supported_pairs" "valid_rt_mat rt_mat"
    "well_formed box with_yaw" "effective_with_yaw box with_yaw"
  shows "\<exists>out. convert box src dst rt_mat with_yaw correct_yaw = Inr out \<and>
      list_all2
        (\<lambda>r r'. if \<not> correct_yaw \<and> ((src = DEPTH \<and> dst = CAM) \<or> (src = CAM \<and> dst = DEPTH))
                 then yaw_of r' = - yaw_of r
                 else - pi \<le> yaw_of r' \<and> yaw_of r' < pi)
        (rows (buffer box)) (rows (buffer out))"
proof -
  obtain out where out: "convert box src dst rt_mat with_yaw correct_yaw = Inr out"
    and rows: "rows (buffer out) =
        map (\<lambda>r. convert_row (ncols (buffer box)) r src dst rt_mat
                    (effective_with_yaw box with_yaw) correct_yaw) (rows (buffer box))"
    using convert_well_formed [OF assms(1-3)] by blast
  have "list_all2
        (\<lambda>r r'. if \<not> correct_yaw \<and> ((src = DEPTH \<and> dst = CAM) \<or> (src = CAM \<and> dst = DEPTH))
                 then yaw_of r' = - yaw_of r
                 else - pi \<le> yaw_of r' \<and> yaw_of r' < pi)
        (rows (buffer box)) (rows (buffer out))"
    unfolding rows
  proof (rule list_all2_map_same)
    fix r assume r: "r \<in> set (rows (buffer box))"
    note wr = well_formed_rows [OF assms(3) r]
    note y = convert_row_fields(3) [OF assms(1,2) wr assms(4), of correct_yaw]
    show "if \<not> correct_yaw \<and> ((src = DEPTH \<and> dst = CAM) \<or> (src = CAM \<and> dst = DEPTH))
          then yaw_of (convert_row (ncols (buffer box)) r src dst rt_mat
                    (effective_with_yaw box with_yaw) correct_yaw) = - yaw_of r
          else - pi \<le> yaw_of (convert_row (ncols (buffer box)) r src dst rt_mat
                    (effective_with_yaw box with_yaw) correct_yaw) \<and>
               yaw_of (convert_row (ncols (buffer box)) r src dst rt_mat
                    (effective_with_yaw box with_yaw) correct_yaw) < pi"
    proof (cases correct_yaw)
      case True
      then show ?thesis using y by (simp add: rotated_yaw_range)
    next
      case False
      then show ?thesis
        using y fixed_yaw_cases [OF assms(1), of "r ! 6"]
        by (simp add: yaw_of_def split: if_splits)
    qed
  qed
  with out show ?thesis by blast
qed

theorem C3_witness:
  "(LIDAR, DEPTH) \<in> set supported_pairs \<and> valid_rt_mat None \<and>
   well_formed (Sequence PyList [0, 0, 0, 1, 1, 1, 4]) True \<and>
   effective_with_yaw (Sequence PyList [0, 0, 0, 1, 1, 1, 4]) True \<and>
   (\<exists>out. convert (Sequence PyList [0, 0, 0, 1, 1, 1, 4]) LIDAR DEPTH None True False = Inr out \<and>
      list_all2
        (\<lambda>r r'. if \<not> False \<and> ((LIDAR = DEPTH \<and> DEPTH = CAM) \<or> (LIDAR = CAM \<and> DEPTH = DEPTH))
                 then yaw_of r' = - yaw_of r
                 else - pi \<le> yaw_of r' \<and> yaw_of r' < pi)
        (rows (buffer (Sequence PyList [0, 0, 0, 1, 1, 1, 4]))) (rows (buffer out)))"
proof -
  have 1: "(LIDAR, DEPTH) \<in> set supported_pairs"
    by (simp add: supported_pairs_def)
  have 2: "valid_rt_mat None"
    by (simp add: valid_rt_mat_def)
  have 3: "well_formed (Sequence PyList [0, 0, 0, 1, 1, 1, 4]) True"
    by simp
  have 4: "effective_with_yaw (Sequence PyList [0, 0, 0, 1, 1, 1, 4]) True"
    by simp
  show ?thesis
    by (intro conjI 1 2 3 4 C3_yaw_range_amended [OF 1 2 3 4])
qed

subsection \<open>C4: the width check\<close>

text \<open>
  C4 does not hold of the code for arrays and tensors: the conversion rejects a list or
  tuple of fewer than 7 numbers and nothing else (lemma \<open>convert_AssertionError_iff\<close>).
  A \<open>1 \<times> 5\<close> tensor converted from LIDAR to CAM with \<open>with_yaw = True\<close> is not
  rejected: the slices of the missing columns are empty, and the result is a
  \<open>1 \<times> 5\<close> tensor with the rotated center and the two sizes that were there.
\<close>

theorem C4_narrow_tensor_is_converted:
  "convert (TorchTensor \<lparr>ncols = 5, rows = [[1, 2, 3, 4, 5]]\<rparr>) LIDAR CAM None True False
     = Inr (TorchTensor \<lparr>ncols = 5, rows = [[-2, -3, 1, 4, 5]]\<rparr>)"
  by (simp add: convert_def eval_defs dot_def)

subsection \<open>C5: the identity conversion\<close>

text \<open>
  C5.  When \<open>src = dst\<close>, convert returns its input as it is, for every box, every
  coordinate system and all flags: the value is the input (nothing is validated, nothing is
  transformed), and on the store the result is the very reference that was passed, with the
  store left as it was (no copy is allocated).
\<close>

theorem C5_identity_returns_input:
  "convert box X X rt_mat with_yaw correct_yaw = Inr box \<and>
   convert_ref h ref X X rt_mat with_yaw correct_yaw = (Inr ref, h)"
  by (simp add: convert_def convert_ref_def)

subsection \<open>C6: the two yaw paths agree on the default matrices\<close>



subsection \<open>C7: the sizes are relabelled, never recombined\<close>

text \<open>
  C7.  For every supported pair, every well-formed box and every matrix (the default one,
  or a caller's matrix of three or four columns and at least three rows), with or without
  yaw and on both yaw paths, the conversion succeeds and the three size fields of each
  output row are a permutation of the three size fields of the input row: the multisets
  agree, and the output is \<open>(dx, dz, dy)\<close> when CAM is one of the two systems and
  \<open>(dx, dy, dz)\<close> otherwise.
\<close>

theorem C7_sizes_are_permuted:
  assumes "(src, dst) \<in> set supported_pairs" "valid_rt_mat rt_mat" "well_formed box with_yaw"
  shows "\<exists>out. convert box src dst rt_mat with_yaw correct_yaw = Inr out \<and>
      list_all2 (\<lambda>r r'. mset (sizes r') = mset (sizes r) \<and>
                   sizes r' = (if src = CAM \<or> dst = CAM then [r ! 3, r ! 5, r ! 4]
                               else [r ! 3, r ! 4, r ! 5]))
        (rows (buffer box)) (rows (buffer out))"
proof -
  obtain out where out: "convert box src dst rt_mat with_yaw correct_yaw = Inr out"
    and rows: "rows (buffer out) =
        map (\<lambda>r. convert_row (ncols (buffer box)) r src dst rt_mat
                    (effective_with_yaw box with_yaw) correct_yaw) (rows (buffer box))"
    using convert_well_formed [OF assms] by blast
  have "list_all2 (\<lambda>r r'. mset (sizes r') = mset (sizes r) \<and>
                   sizes r' = (if src = CAM \<or> dst = CAM then [r ! 3, r ! 5, r ! 4]
                               else [r ! 3, r ! 4, r ! 5]))
        (rows (buffer box)) (rows (buffer out))"
    unfolding rows
  proof (rule list_all2_map_same)
    fix r assume r: "r \<in> set (rows (buffer box))"
    note wr = well_formed_rows [OF assms(3) r]
    have 6: "6 \<le> length r" using wr by (simp split: if_splits)
    show "mset (sizes (convert_row (ncols (buffer box)) r src dst rt_mat
                    (effective_with_yaw box with_yaw) correct_yaw)) = mset (sizes r) \<and>
          sizes (convert_row (ncols (buffer box)) r src dst rt_mat
                    (effective_with_yaw box with_yaw) correct_yaw) =
            (if src = CAM \<or> dst = CAM then [r ! 3, r ! 5, r ! 4] else [r ! 3, r ! 4, r ! 5])"
      using convert_row_fields(2) [OF assms(1,2) wr] sizes_mset [OF 6] by simp
  qed
  with out show ?thesis by blast
qed

theorem C7_witness:
  "(LIDAR, CAM) \<in> set supported_pairs \<and> valid_rt_mat None \<and>
   well_formed (NdArray \<lparr>ncols = 7, rows = [[1, 2, 3, 4, 5, 6, 0]]\<rparr>) True \<and>
   (\<exists>out. convert (NdArray \<lparr>ncols = 7, rows = [[1, 2, 3, 4, 5, 6, 0]]\<rparr>)
            LIDAR CAM None True False = Inr out \<and>
      list_all2 (\<lambda>r r'. mset (sizes r') = mset (sizes r) \<and>
                   sizes r' = (if LIDAR = CAM \<or> CAM = CAM then [r ! 3, r ! 5, r ! 4]
                               else [r ! 3, r ! 4, r ! 5]))
        (rows (buffer (NdArray \<lparr>ncols = 7, rows = [[1, 2, 3, 4, 5, 6, 0]]\<rparr>)))
        (rows (buffer out)))"
proof -
  have 1: "(LIDAR, CAM) \<in> set supported_pairs"
    by (simp add: supported_pairs_def)
  have 2: "valid_rt_mat None"
    by (simp add: valid_rt_mat_def)
  have 3: "well_formed (NdArray \<lparr>ncols = 7, rows = [[1, 2, 3, 4, 5, 6, 0]]\<rparr>) True"
    by (simp add: wf_tensor_def)
  show ?thesis
    by (intro conjI 1 2 3 C7_sizes_are_permuted [OF 1 2 3])
qed

subsection \<open>C8: the input is not written to\<close>

text \<open>
  C8.  Whatever the box, the pair, the matrix and the flags, and whether the call
  returns or raises, every object that was in the store before the call is in it after the
  call with the same value: the call only allocates.  When \<open>src \<noteq> dst\<close> and the
  call returns, the object it returns is a new one, not one of the caller's.
\<close>

theorem C8_input_not_mutated:
  "take (length h) (snd (convert_ref h box src dst rt_mat with_yaw correct_yaw)) = h \<and>
   (\<forall>r. src \<noteq> dst \<and> fst (convert_ref h box src dst rt_mat with_yaw correct_yaw) = Inr r
        \<longrightarrow> length h \<le> r)"
  by (auto simp: convert_ref_def alloc_def Let_def split: sum.splits)

theorem C8_witness:
  "take (length [NdArray \<lparr>ncols = 7, rows = [[1, 2, 3, 4, 5, 6, 0]]\<rparr>])
     (snd (convert_ref [NdArray \<lparr>ncols = 7, rows = [[1, 2, 3, 4, 5, 6, 0]]\<rparr>] 0
        LIDAR CAM None True False))
     = [NdArray \<lparr>ncols = 7, rows = [[1, 2, 3, 4, 5, 6, 0]]\<rparr>] \<and>
   LIDAR \<noteq> CAM \<and>
   fst (convert_ref [NdArray \<lparr>ncols = 7, rows = [[1, 2, 3, 4, 5, 6, 0]]\<rparr>] 0
        LIDAR CAM None True False) = Inr 2 \<and>
   length [NdArray \<lparr>ncols = 7, rows = [[1, 2, 3, 4, 5, 6, 0]]\<rparr>] \<le> (2 :: nat)"
proof -
  let ?h = "[NdArray \<lparr>ncols = 7, rows = [[1, 2, 3, 4, 5, 6, 0]]\<rparr>]"
  note c8 = C8_input_not_mutated [of ?h 0 LIDAR CAM None True False]
  have 1: "LIDAR \<noteq> CAM" by (simp add: modes_distinct)
  have 2: "fst (convert_ref ?h 0 LIDAR CAM None True False) = Inr 2"
    by (simp add: convert_ref_def alloc_def eval_defs)
  have 3: "take (length ?h) (snd (convert_ref ?h 0 LIDAR CAM None True False)) = ?h"
    by (rule conjunct1 [OF c8])
  have 4: "length ?h \<le> (2 :: nat)"
    using conjunct2 [OF c8] 1 2 by blast
  show ?thesis
    by (intro conjI 1 2 3 4)
qed

subsection \<open>C9: pairs outside the six conversions\<close>

text \<open>
  A list of three numbers with a source that is not a coordinate system fails the length
  assertion, which comes before the dispatch: the error is AssertionError, not
  NotImplementedError.
\<close>

theorem C9_counterexample:
  "3 \<noteq> LIDAR \<and> (3, LIDAR) \<notin> set supported_pairs \<and>
   convert (Sequence PyList [1, 2, 3]) 3 LIDAR None True False = Inl AssertionError \<and>
   convert (Sequence PyList [1, 2, 3]) 3 LIDAR None True False \<noteq> Inl NotImplementedError"
  by (simp add: convert_def supported_pairs_def LIDAR_def CAM_def DEPTH_def)

text \<open>
  C9, amended.  For every pair \<open>src \<noteq> dst\<close> that is not one of the six conversions,
  and every box, matrix and flags, the conversion raises and returns nothing:
  NotImplementedError, unless the box is a list or tuple of fewer than 7 numbers, which
  raises AssertionError first.
\<close>

theorem C9_unsupported_pair_raises:
  assumes "src \<noteq> dst" "(src, dst) \<notin> set supported_pairs"
  shows "convert box src dst rt_mat with_yaw correct_yaw =
         Inl (if short_sequence box then AssertionError else NotImplementedError)"
proof -
  have d: "dispatch arr src dst rt_mat w correct_yaw = Inl NotImplementedError" for arr w
    using assms(2) by (simp add: dispatch_def supported_pairs_def Let_def)
  show ?thesis
    using assms(1) d
    by (cases box) (simp_all add: convert_def convert_arr_def)
qed

theorem C9_witness:
  "3 \<noteq> LIDAR \<and> (3, LIDAR) \<notin> set supported_pairs \<and>
   convert (TorchTensor \<lparr>ncols = 7, rows = [[1, 2, 3, 4, 5, 6, 0]]\<rparr>) 3 LIDAR None True False =
     Inl (if short_sequence (TorchTensor \<lparr>ncols = 7, rows = [[1, 2, 3, 4, 5, 6, 0]]\<rparr>)
          then AssertionError else NotImplementedError)"
proof -
  have 1: "3 \<noteq> LIDAR" by (simp add: LIDAR_def)
  have 2: "(3, LIDAR) \<notin> set supported_pairs"
    by (simp add: supported_pairs_def LIDAR_def CAM_def DEPTH_def)
  show ?thesis
    by (intro conjI 1 2 C9_unsupported_pair_raises [OF 1 2])
qed

subsection \<open>C10: the yaw does not see the translation\<close>

text \<open>
  C10.  With \<open>correct_yaw = True\<close>, two caller-supplied matrices with a fourth
  (translation) column that have the same rotation part \<^verbatim>\<open>rt_mat[:3, :3]\<close> give the same
  output yaws, for every supported pair and every well-formed box with a yaw: each output
  yaw is a function of the rotation part and of the input yaw alone.  (The witness has two
  such matrices whose output centers differ.)
\<close>

theorem C10_yaw_ignores_translation:
  assumes "(src, dst) \<in> set supported_pairs"
    "well_formed box with_yaw" "effective_with_yaw box with_yaw"
    "ncols m1 = 4" "3 \<le> length (rows m1)" "ncols m2 = 4" "3 \<le> length (rows m2)"
    "slice_33 m1 = slice_33 m2"
  shows "\<exists>out1 out2.
      convert box src dst (Some m1) with_yaw True = Inr out1 \<and>
      convert box src dst (Some m2) with_yaw True = Inr out2 \<and>
      map yaw_of (rows (buffer out1)) = map yaw_of (rows (buffer out2)) \<and>
      map yaw_of (rows (buffer out1)) =
        map (\<lambda>r. rotated_yaw (slice_33 m1) src dst (yaw_of r)) (rows (buffer box))"
proof -
  have v1: "valid_rt_mat (Some m1)" and v2: "valid_rt_mat (Some m2)"
    using assms(4-7) by (simp_all add: valid_rt_mat_def)
  obtain out1 where out1: "convert box src dst (Some m1) with_yaw True = Inr out1"
    and rows1: "rows (buffer out1) =
        map (\<lambda>r. convert_row (ncols (buffer box)) r src dst (Some m1)
                    (effective_with_yaw box with_yaw) True) (rows (buffer box))"
    using convert_well_formed [OF assms(1) v1 assms(2)] by blast
  obtain out2 where out2: "convert box src dst (Some m2) with_yaw True = Inr out2"
    and rows2: "rows (buffer out2) =
        map (\<lambda>r. convert_row (ncols (buffer box)) r src dst (Some m2)
                    (effective_with_yaw box with_yaw) True) (rows (buffer box))"
    using convert_well_formed [OF assms(1) v2 assms(2)] by blast
  have y1: "yaw_of (convert_row (ncols (buffer box)) r src dst (Some m1)
                    (effective_with_yaw box with_yaw) True) =
            rotated_yaw (slice_33 m1) src dst (yaw_of r)"
    if "r \<in> set (rows (buffer box))" for r
    using convert_row_fields(3) [OF assms(1) v1 well_formed_rows [OF assms(2) that] assms(3),
        of True]
    by (simp add: effective_rt_mat_def yaw_of_def rotated_yaw_slice_33_idem)
  have y2: "yaw_of (convert_row (ncols (buffer box)) r src dst (Some m2)
                    (effective_with_yaw box with_yaw) True) =
            rotated_yaw (slice_33 m1) src dst (yaw_of r)"
    if "r \<in> set (rows (buffer box))" for r
    using convert_row_fields(3) [OF assms(1) v2 well_formed_rows [OF assms(2) that] assms(3),
        of True] rotated_yaw_slice_33_idem [of m2 src dst "r ! 6"]
    by (simp add: effective_rt_mat_def yaw_of_def assms(8))
  have "map yaw_of (rows (buffer out1)) =
        map (\<lambda>r. rotated_yaw (slice_33 m1) src dst (yaw_of r)) (rows (buffer box))"
    using y1 by (simp add: rows1)
  moreover have "map yaw_of (rows (buffer out2)) =
        map (\<lambda>r. rotated_yaw (slice_33 m1) src dst (yaw_of r)) (rows (buffer box))"
    using y2 by (simp add: rows2)
  ultimately show ?thesis using out1 out2 by simp
qed


theorem C10_witness:
  "(LIDAR, CAM) \<in> set supported_pairs \<and>
   well_formed (Sequence PyList [1, 2, 3, 4, 5, 6, 0]) True \<and>
   effective_with_yaw (Sequence PyList [1, 2, 3, 4, 5, 6, 0]) True \<and>
   ncols \<lparr>ncols = 4, rows = [[0, -1, 0, 0], [0, 0, -1, 0], [1, 0, 0, 0]]\<rparr> = 4 \<and>
   3 \<le> length (rows \<lparr>ncols = 4, rows = [[0, -1, 0, 0], [0, 0, -1, 0], [1, 0, 0, 0]]\<rparr>) \<and>
   ncols \<lparr>ncols = 4, rows = [[0, -1, 0, 10], [0, 0, -1, 20], [1, 0, 0, 30]]\<rparr> = 4 \<and>
   3 \<le> length (rows \<lparr>ncols = 4, rows = [[0, -1, 0, 10], [0, 0, -1, 20], [1, 0, 0, 30]]\<rparr>) \<and>
   slice_33 \<lparr>ncols = 4, rows = [[0, -1, 0, 0], [0, 0, -1, 0], [1, 0, 0, 0]]\<rparr> =
     slice_33 \<lparr>ncols = 4, rows = [[0, -1, 0, 10], [0, 0, -1, 20], [1, 0, 0, 30]]\<rparr> \<and>
   convert (Sequence PyList [1, 2, 3, 4, 5, 6, 0]) LIDAR CAM
     (Some \<lparr>ncols = 4, rows = [[0, -1, 0, 0], [0, 0, -1, 0], [1, 0, 0, 0]]\<rparr>) True True
     = Inr (Sequence PyList [-2, -3, 1, 4, 6, 5, - (pi / 2)]) \<and>
   convert (Sequence PyList [1, 2, 3, 4, 5, 6, 0]) LIDAR CAM
     (Some \<lparr>ncols = 4, rows = [[0, -1, 0, 10], [0, 0, -1, 20], [1, 0, 0, 30]]\<rparr>) True True
     = Inr (Sequence PyList [8, 17, 31, 4, 6, 5, - (pi / 2)]) \<and>
   (\<exists>out1 out2.
      convert (Sequence PyList [1, 2, 3, 4, 5, 6, 0]) LIDAR CAM
        (Some \<lparr>ncols = 4, rows = [[0, -1, 0, 0], [0, 0, -1, 0], [1, 0, 0, 0]]\<rparr>) True True
        = Inr out1 \<and>
      convert (Sequence PyList [1, 2, 3, 4, 5, 6, 0]) LIDAR CAM
        (Some \<lparr>ncols = 4, rows = [[0, -1, 0, 10], [0, 0, -1, 20], [1, 0, 0, 30]]\<rparr>) True True
        = Inr out2 \<and>
      map yaw_of (rows (buffer out1)) = map yaw_of (rows (buffer out2)) \<and>
      map yaw_of (rows (buffer out1)) =
        map (\<lambda>r. rotated_yaw
                   (slice_33 \<lparr>ncols = 4, rows = [[0, -1, 0, 0], [0, 0, -1, 0], [1, 0, 0, 0]]\<rparr>)
                   LIDAR CAM (yaw_of r))
          (rows (buffer (Sequence PyList [1, 2, 3, 4, 5, 6, 0]))))"
proof -
  let ?b = "Sequence PyList [1, 2, 3, 4, 5, 6, 0]"
  let ?m1 = "\<lparr>ncols = 4, rows = [[0, -1, 0, 0], [0, 0, -1, 0], [1, 0, 0, 0 :: real]]\<rparr>"
  let ?m2 = "\<lparr>ncols = 4, rows = [[0, -1, 0, 10], [0, 0, -1, 20], [1, 0, 0, 30 :: real]]\<rparr>"
  have 1: "(LIDAR, CAM) \<in> set supported_pairs"
    by (simp add: supported_pairs_def)
  have 2: "well_formed ?b True" by simp
  have 3: "effective_with_yaw ?b True" by simp
  have 4: "ncols ?m1 = 4" by simp
  have 5: "3 \<le> length (rows ?m1)" by simp
  have 6: "ncols ?m2 = 4" by simp
  have 7: "3 \<le> length (rows ?m2)" by simp
  have 8: "slice_33 ?m1 = slice_33 ?m2" by (simp add: slice_33_def)
  have a: "atan2 (- 1) 0 = - (pi / 2)" by (simp add: atan2_def)
  have 9: "convert ?b LIDAR CAM (Some ?m1) True True
      = Inr (Sequence PyList [-2, -3, 1, 4, 6, 5, - (pi / 2)])"
    by (simp add: convert_def eval_defs slice_33_def dot_def a limit_period_neg_half_pi)
  have 10: "convert ?b LIDAR CAM (Some ?m2) True True
      = Inr (Sequence PyList [8, 17, 31, 4, 6, 5, - (pi / 2)])"
    by (simp add: convert_def eval_defs slice_33_def dot_def a limit_period_neg_half_pi)
  show ?thesis
    by (intro conjI 1 2 3 4 5 6 7 8 9 10 C10_yaw_ignores_translation [OF 1 2 3 4 5 6 7 8])
qed

end
